theory Spec2Isabelle
  imports Complex_Main
begin

section \<open>Radius-of-gyration analysis scripts\<close>

text \<open>
  The repository holds two scripts, \<^verbatim>\<open>compute_gyration.py\<close> (statistics of the full
  series, confidence interval, running average) and \<^verbatim>\<open>compute_gyration (1).py\<close>
  (average of the last half of the series, g-factor, classification). Each defines one
  function \<^verbatim>\<open>analyze_gyration_data(filename)\<close>. Below, the function of the first script
  keeps its name and the one of the second script carries the suffix \<open>_1\<close> of its file.

  Numbers. The scripts compute with numpy \<^verbatim>\<open>float64\<close>. A finite value is modelled as an
  exact \<^typ>\<open>real\<close>: rounding, overflow and underflow of IEEE arithmetic are not part of
  the model. The non-finite results that numpy returns instead of raising (division by
  zero, square root of a negative number, statistics of an empty array) are kept as
  values of their own, since the scripts go on computing with them.
\<close>

subsection \<open>numpy scalars\<close>

datatype npfloat = Num real | PInf | NInf | NaN

text \<open>\<^verbatim>\<open>np.sqrt(x)\<close>: \<^verbatim>\<open>nan\<close> below zero.\<close>

fun np_sqrt :: "npfloat \<Rightarrow> npfloat" where
  "np_sqrt (Num x) = (if x < 0 then NaN else Num (sqrt x))"
| "np_sqrt PInf = PInf"
| "np_sqrt NInf = NaN"
| "np_sqrt NaN = NaN"

text \<open>
  \<^verbatim>\<open>x / y\<close> on float64 scalars: no exception at a zero divisor, but \<^verbatim>\<open>nan\<close> for
  \<^verbatim>\<open>0/0\<close> and an infinity otherwise. Every zero divisor of the scripts is a square, a
  square root or a count, hence \<^verbatim>\<open>+0.0\<close>, and the sign of the infinity is the sign of
  the dividend.
\<close>

fun np_divide :: "npfloat \<Rightarrow> npfloat \<Rightarrow> npfloat" where
  "np_divide (Num a) (Num b) =
     (if b \<noteq> 0 then Num (a / b)
      else if a = 0 then NaN
      else if 0 < a then PInf else NInf)"
| "np_divide (Num a) PInf = Num 0"
| "np_divide (Num a) NInf = Num 0"
| "np_divide PInf (Num b) = (if 0 \<le> b then PInf else NInf)"
| "np_divide NInf (Num b) = (if 0 \<le> b then NInf else PInf)"
| "np_divide PInf PInf = NaN"
| "np_divide PInf NInf = NaN"
| "np_divide NInf PInf = NaN"
| "np_divide NInf NInf = NaN"
| "np_divide NaN y = NaN"
| "np_divide x NaN = NaN"

text \<open>\<^verbatim>\<open>x ** 2\<close>.\<close>

fun np_square :: "npfloat \<Rightarrow> npfloat" where
  "np_square (Num x) = Num (x\<^sup>2)"
| "np_square PInf = PInf"
| "np_square NInf = PInf"
| "np_square NaN = NaN"

text \<open>\<^verbatim>\<open>x - y\<close>.\<close>

fun np_subtract :: "npfloat \<Rightarrow> npfloat \<Rightarrow> npfloat" where
  "np_subtract (Num a) (Num b) = Num (a - b)"
| "np_subtract (Num a) PInf = NInf"
| "np_subtract (Num a) NInf = PInf"
| "np_subtract PInf (Num b) = PInf"
| "np_subtract NInf (Num b) = NInf"
| "np_subtract PInf NInf = PInf"
| "np_subtract NInf PInf = NInf"
| "np_subtract PInf PInf = NaN"
| "np_subtract NInf NInf = NaN"
| "np_subtract NaN y = NaN"
| "np_subtract x NaN = NaN"

text \<open>\<^verbatim>\<open>abs(x)\<close>.\<close>

fun np_abs :: "npfloat \<Rightarrow> npfloat" where
  "np_abs (Num x) = Num \<bar>x\<bar>"
| "np_abs PInf = PInf"
| "np_abs NInf = PInf"
| "np_abs NaN = NaN"

text \<open>\<^verbatim>\<open>x < y\<close>: every comparison with \<^verbatim>\<open>nan\<close> is false.\<close>

fun np_less :: "npfloat \<Rightarrow> npfloat \<Rightarrow> bool" where
  "np_less (Num a) (Num b) = (a < b)"
| "np_less (Num a) PInf = True"
| "np_less NInf (Num b) = True"
| "np_less NInf PInf = True"
| "np_less x y = False"

subsection \<open>numpy reductions over a one-dimensional array\<close>

text \<open>
  \<^verbatim>\<open>np.mean(a)\<close> is the sum over the count; on an empty array numpy warns and returns
  \<^verbatim>\<open>nan\<close>.
\<close>

definition np_mean :: "real list \<Rightarrow> npfloat" where
  "np_mean a = (if a = [] then NaN else Num (sum_list a / real (length a)))"

text \<open>
  \<^verbatim>\<open>np.var(a, ddof)\<close> as numpy computes it: the mean of the array, the deviations from
  it, their squares, and the sum of the squares over \<^verbatim>\<open>max(N - ddof, 0)\<close>.
  \<^verbatim>\<open>np.std(a, ddof)\<close> is its square root. The scripts call \<^verbatim>\<open>np.std(a)\<close>, and the
  default of \<^verbatim>\<open>ddof\<close> is 0.
\<close>

definition np_var :: "nat \<Rightarrow> real list \<Rightarrow> npfloat" where
  "np_var ddof a =
     (case np_mean a of
        Num arrmean \<Rightarrow>
          np_divide (Num (sum_list (map (\<lambda>x. \<bar>x - arrmean\<bar>\<^sup>2) a)))
                    (Num (real (length a - ddof)))
      | other \<Rightarrow> NaN)"

definition np_std_ddof :: "nat \<Rightarrow> real list \<Rightarrow> npfloat" where
  "np_std_ddof ddof a = np_sqrt (np_var ddof a)"

definition np_std :: "real list \<Rightarrow> npfloat" where
  "np_std a = np_std_ddof 0 a"

subsection \<open>The g-factor script: selection, g-factor, classification\<close>

text \<open>
  Lines 27 and 28 of \<^verbatim>\<open>compute_gyration (1).py\<close>:
  \<^verbatim>\<open>equilibrated_start = len(rg_values) // 2\<close> and
  \<^verbatim>\<open>equilibrated_rg = rg_values[equilibrated_start:]\<close>. A slice never raises.
\<close>

definition equilibrated_start :: "real list \<Rightarrow> nat" where
  "equilibrated_start rg_values = length rg_values div 2"

definition equilibrated_rg :: "real list \<Rightarrow> real list" where
  "equilibrated_rg rg_values = drop (equilibrated_start rg_values) rg_values"

text \<open>
  Lines 39 to 47. The script fixes \<^verbatim>\<open>expected_g = 0.445\<close>; the two formulas are
  written with the constant as a parameter \<open>eg\<close>.
\<close>

definition expected_g :: real where
  "expected_g = 0.445"

definition rg_linear_theoretical :: "npfloat \<Rightarrow> real \<Rightarrow> npfloat" where
  "rg_linear_theoretical rg_tetracyclic eg = np_divide rg_tetracyclic (np_sqrt (Num eg))"

definition actual_g :: "npfloat \<Rightarrow> real \<Rightarrow> npfloat" where
  "actual_g rg_tetracyclic eg =
     np_divide (np_square rg_tetracyclic) (np_square (rg_linear_theoretical rg_tetracyclic eg))"

text \<open>\<^verbatim>\<open>abs(actual_g - expected_g)\<close>, the quantity the script prints and classifies.\<close>

definition difference :: "npfloat \<Rightarrow> real \<Rightarrow> npfloat" where
  "difference g eg = np_abs (np_subtract g (Num eg))"

text \<open>Lines 56 to 61: the branch taken, named by the word it prints.\<close>

datatype label = Excellent | Good | NeedsReview

definition classification :: "npfloat \<Rightarrow> label" where
  "classification d =
     (if np_less d (Num 0.05) then Excellent
      else if np_less d (Num 0.1) then Good
      else NeedsReview)"

subsection \<open>The statistics script: running average and confidence interval\<close>





text \<open>
  \<^verbatim>\<open>scipy.stats.t.interval(confidence, df, loc, scale)\<close>. scipy returns the two quantiles
  \<^verbatim>\<open>ppf((1 - confidence)/2, df)\<close> and \<^verbatim>\<open>ppf((1 + confidence)/2, df)\<close> of the
  standard distribution, each multiplied by \<^verbatim>\<open>scale\<close> and shifted by \<^verbatim>\<open>loc\<close>; where
  \<^verbatim>\<open>df > 0\<close> or \<^verbatim>\<open>scale > 0\<close> does not hold it returns \<^verbatim>\<open>nan\<close> and does not
  raise. The quantile function of Student's t is scipy's and is the parameter \<open>t_ppf\<close>
  (probability first, degrees of freedom second). The mean and the standard deviation of
  a series of reals are numbers or \<^verbatim>\<open>nan\<close>, so no infinite argument arises.
\<close>

definition t_interval ::
  "(real \<Rightarrow> real \<Rightarrow> real) \<Rightarrow> real \<Rightarrow> real \<Rightarrow> npfloat \<Rightarrow> npfloat \<Rightarrow> npfloat \<times> npfloat" where
  "t_interval t_ppf confidence df loc scale =
     (case (loc, scale) of
        (Num l, Num s) \<Rightarrow>
          if 0 < df \<and> 0 < s
          then (Num (t_ppf ((1 - confidence) / 2) df * s + l),
                Num (t_ppf ((1 + confidence) / 2) df * s + l))
          else (NaN, NaN)
      | other \<Rightarrow> (NaN, NaN))"

text \<open>
  Lines 30, 31, 36 and 37:
  \<^verbatim>\<open>stats.t.interval(0.95, n-1, loc=mean_rg, scale=std_rg/np.sqrt(n))\<close> with
  \<^verbatim>\<open>n = len(rg_values)\<close>.
\<close>

definition confidence_interval ::
  "(real \<Rightarrow> real \<Rightarrow> real) \<Rightarrow> real list \<Rightarrow> npfloat \<times> npfloat" where
  "confidence_interval t_ppf rg_values =
     t_interval t_ppf 0.95 (real_of_int (int (length rg_values) - 1))
       (np_mean rg_values)
       (np_divide (np_std rg_values) (np_sqrt (Num (real (length rg_values)))))"

subsection \<open>Exceptions, input files and arrays\<close>

text \<open>
  The exceptions the two functions can meet; all of them are subclasses of
  \<^verbatim>\<open>Exception\<close>. \<^verbatim>\<open>FileNotFoundError\<close> carries the name that was not found.
\<close>

datatype py_error = FileNotFoundError string | ValueError | IndexError | OSError

text \<open>
  An input file, as \<^verbatim>\<open>np.loadtxt\<close> sees it: either some field does not read as a
  number, or the file is the list of its rows of numbers (comment and blank lines
  dropped, so a row has at least one field). The entries are finite numbers.
\<close>

datatype source = Unparsable | Rows "real list list"

datatype ndarray = Arr0 real | Arr1 "real list" | Arr2 "real list list"

text \<open>
  \<^verbatim>\<open>np.loadtxt(filename)\<close>: a missing file raises \<^verbatim>\<open>FileNotFoundError\<close>; a field that is
  not a number, or rows of different lengths, raise \<^verbatim>\<open>ValueError\<close>; a file without
  data gives an empty one-dimensional array (and a warning). The result is squeezed
  (\<^verbatim>\<open>ndmin=0\<close>): a single row or a single column gives a one-dimensional array, a
  single number a zero-dimensional one.
\<close>

definition loadtxt :: "(string \<rightharpoonup> source) \<Rightarrow> string \<Rightarrow> py_error + ndarray" where
  "loadtxt fs filename =
     (case fs filename of
        None \<Rightarrow> Inl (FileNotFoundError filename)
      | Some Unparsable \<Rightarrow> Inl ValueError
      | Some (Rows []) \<Rightarrow> Inr (Arr1 [])
      | Some (Rows (r # rs)) \<Rightarrow>
          if \<not> list_all (\<lambda>r'. length r' = length r) rs then Inl ValueError
          else if rs = [] then (case r of [x] \<Rightarrow> Inr (Arr0 x) | other \<Rightarrow> Inr (Arr1 r))
          else if length r = 1 then Inr (Arr1 (map hd (r # rs)))
          else Inr (Arr2 (r # rs)))"

text \<open>
  \<^verbatim>\<open>data[:, j]\<close>: two indices on an array of fewer than two dimensions raise
  \<^verbatim>\<open>IndexError\<close>, as does a column that is not there.
\<close>

definition column :: "ndarray \<Rightarrow> nat \<Rightarrow> py_error + real list" where
  "column data j =
     (case data of
        Arr2 (r # rs) \<Rightarrow>
          if j < length r then Inr (map (\<lambda>r'. r' ! j) (r # rs)) else Inl IndexError
      | other \<Rightarrow> Inl IndexError)"

text \<open>\<^verbatim>\<open>a[-1]\<close> and \<^verbatim>\<open>a[i]\<close> for \<open>i \<ge> 0\<close> on a one-dimensional array.\<close>

definition last_item :: "real list \<Rightarrow> py_error + real" where
  "last_item a = (if a = [] then Inl IndexError else Inr (last a))"

definition item :: "real list \<Rightarrow> nat \<Rightarrow> py_error + real" where
  "item a i = (if i < length a then Inr (a ! i) else Inl IndexError)"

text \<open>\<^verbatim>\<open>int(x)\<close> of a finite float truncates towards zero.\<close>

definition py_int :: "real \<Rightarrow> int" where
  "py_int x = (if 0 \<le> x then \<lfloor>x\<rfloor> else \<lceil>x\<rceil>)"

text \<open>\<^verbatim>\<open>np.min(a)\<close> and \<^verbatim>\<open>np.max(a)\<close> raise \<^verbatim>\<open>ValueError\<close> on an empty array.\<close>

definition np_min :: "real list \<Rightarrow> py_error + real" where
  "np_min a = (case a of [] \<Rightarrow> Inl ValueError | x # xs \<Rightarrow> Inr (fold min xs x))"

definition np_max :: "real list \<Rightarrow> py_error + real" where
  "np_max a = (case a of [] \<Rightarrow> Inl ValueError | x # xs \<Rightarrow> Inr (fold max xs x))"

subsection \<open>Effects of a run\<close>

text \<open>
  What a call reads: the files it can load, and whether the plotting calls
  (\<^verbatim>\<open>plt.figure\<close> to \<^verbatim>\<open>plt.savefig\<close>) and the \<^verbatim>\<open>open(..., 'w')\<close> of the results
  file raise in this environment.
\<close>

record env =
  files :: "string \<rightharpoonup> source"
  pyplot_error :: "py_error option"
  open_error :: "py_error option"

text \<open>
  What a call prints, one constructor per \<^verbatim>\<open>print\<close> group of the scripts, carrying the
  values the text is formatted from.
\<close>

datatype message =
    Banner
  | Loaded nat
  | Statistics npfloat npfloat real real "npfloat \<times> npfloat" nat
  | Summary int nat nat
  | Results npfloat npfloat npfloat npfloat real npfloat
  | Verdict label
  | PlotSaved
  | ResultsSaved
  | NotFound string
  | Hint
  | ErrorText py_error

text \<open>
  What a call leaves behind: the value it returns (\<open>None\<close> for \<^verbatim>\<open>None\<close> and for
  \<^verbatim>\<open>(None, None, None)\<close>), the text it printed and the names of the files it created.
\<close>

record 'r outcome =
  ret :: "'r option"
  stdout :: "message list"
  created :: "string list"

subsection \<open>\<^verbatim>\<open>compute_gyration (1).py\<close>\<close>

text \<open>
  The body of the \<^verbatim>\<open>try\<close>, lines 21 to 104. The result is the value returned or the
  exception raised, with the text printed and the files created up to that point. The
  plotting block reads \<^verbatim>\<open>timesteps[equilibrated_start]\<close> (line 71); the image is saved
  before the results file is opened.
\<close>

definition try_block_1 ::
  "env \<Rightarrow> string \<Rightarrow> (py_error + npfloat \<times> npfloat \<times> npfloat) \<times> message list \<times> string list" where
  "try_block_1 env filename =
    (case loadtxt (files env) filename of
       Inl e \<Rightarrow> (Inl e, [], [])
     | Inr data \<Rightarrow>
    (case column data 0 of
       Inl e \<Rightarrow> (Inl e, [], [])
     | Inr timesteps \<Rightarrow>
    (case column data 1 of
       Inl e \<Rightarrow> (Inl e, [], [])
     | Inr rg_values \<Rightarrow>
       let avg_rg = np_mean (equilibrated_rg rg_values);
           std_rg = np_std (equilibrated_rg rg_values)
       in
    (case last_item timesteps of
       Inl e \<Rightarrow> (Inl e, [], [])
     | Inr t_last \<Rightarrow>
       let rg_tetracyclic = avg_rg;
           rg_linear = rg_linear_theoretical rg_tetracyclic expected_g;
           g = actual_g rg_tetracyclic expected_g;
           out = [Summary (py_int t_last) (length rg_values) (length (equilibrated_rg rg_values)),
                  Results avg_rg std_rg rg_linear g expected_g (difference g expected_g),
                  Verdict (classification (difference g expected_g))]
       in
    (case item timesteps (equilibrated_start rg_values) of
       Inl e \<Rightarrow> (Inl e, out, [])
     | Inr t_start \<Rightarrow>
    (case pyplot_error env of
       Some e \<Rightarrow> (Inl e, out, [])
     | None \<Rightarrow>
    (case open_error env of
       Some e \<Rightarrow> (Inl e, out @ [PlotSaved], [''rg_analysis_results.png''])
     | None \<Rightarrow>
         (Inr (g, avg_rg, std_rg), out @ [PlotSaved, ResultsSaved],
          [''rg_analysis_results.png'', ''g_factor_results.txt'']))))))))"

text \<open>
  The whole function: the banner, the \<^verbatim>\<open>try\<close>, and the two handlers, in their order.
  \<open>Inl\<close> stands for an exception that leaves the function.
\<close>

definition analyze_gyration_data_1 ::
  "env \<Rightarrow> string \<Rightarrow> py_error + (npfloat \<times> npfloat \<times> npfloat) outcome" where
  "analyze_gyration_data_1 env filename =
     (case try_block_1 env filename of
        (Inr r, out, files_created) \<Rightarrow>
          Inr \<lparr>ret = Some r, stdout = Banner # out, created = files_created\<rparr>
      | (Inl (FileNotFoundError f), out, files_created) \<Rightarrow>
          Inr \<lparr>ret = None, stdout = Banner # out @ [NotFound filename, Hint],
               created = files_created\<rparr>
      | (Inl e, out, files_created) \<Rightarrow>
          Inr \<lparr>ret = None, stdout = Banner # out @ [ErrorText e], created = files_created\<rparr>)"

subsection \<open>\<^verbatim>\<open>compute_gyration.py\<close>\<close>

text \<open>The dictionary the function returns, lines 99 to 104.\<close>

record stats =
  mean_rg :: npfloat
  std_rg :: npfloat
  conf_int :: "npfloat \<times> npfloat"
  n_samples :: nat

text \<open>
  The body of the \<^verbatim>\<open>try\<close>, lines 22 to 104. The three plots, the running average of
  line 71 among them, leave no trace but the image file; what can go wrong in them is the
  \<open>pyplot_error\<close> of the environment.
\<close>

definition try_block ::
  "(real \<Rightarrow> real \<Rightarrow> real) \<Rightarrow> env \<Rightarrow> string \<Rightarrow> (py_error + stats) \<times> message list \<times> string list" where
  "try_block t_ppf env filename =
    (case loadtxt (files env) filename of
       Inl e \<Rightarrow> (Inl e, [], [])
     | Inr data \<Rightarrow>
    (case column data 0 of
       Inl e \<Rightarrow> (Inl e, [], [])
     | Inr timesteps \<Rightarrow>
    (case column data 1 of
       Inl e \<Rightarrow> (Inl e, [], [])
     | Inr rg_values \<Rightarrow>
    (case np_min rg_values of
       Inl e \<Rightarrow> (Inl e, [Loaded (length rg_values)], [])
     | Inr min_rg \<Rightarrow>
    (case np_max rg_values of
       Inl e \<Rightarrow> (Inl e, [Loaded (length rg_values)], [])
     | Inr max_rg \<Rightarrow>
       let n = length rg_values;
           ci = confidence_interval t_ppf rg_values;
           out = [Loaded (length rg_values),
                  Statistics (np_mean rg_values) (np_std rg_values) min_rg max_rg ci n]
       in
    (case pyplot_error env of
       Some e \<Rightarrow> (Inl e, out, [])
     | None \<Rightarrow>
    (case open_error env of
       Some e \<Rightarrow> (Inl e, out, [''rg_analysis_results.png''])
     | None \<Rightarrow>
         (Inr \<lparr>mean_rg = np_mean rg_values, std_rg = np_std rg_values, conf_int = ci,
               n_samples = n\<rparr>,
          out @ [ResultsSaved, PlotSaved],
          [''rg_analysis_results.png'', ''simulation_results.txt'']))))))))"

definition analyze_gyration_data ::
  "(real \<Rightarrow> real \<Rightarrow> real) \<Rightarrow> env \<Rightarrow> string \<Rightarrow> py_error + stats outcome" where
  "analyze_gyration_data t_ppf env filename =
     (case try_block t_ppf env filename of
        (Inr r, out, files_created) \<Rightarrow>
          Inr \<lparr>ret = Some r, stdout = Banner # out, created = files_created\<rparr>
      | (Inl (FileNotFoundError f), out, files_created) \<Rightarrow>
          Inr \<lparr>ret = None, stdout = Banner # out @ [NotFound filename, Hint],
               created = files_created\<rparr>
      | (Inl e, out, files_created) \<Rightarrow>
          Inr \<lparr>ret = None, stdout = Banner # out @ [ErrorText e], created = files_created\<rparr>)"


subsection \<open>The words of the specification\<close>

text \<open>
  The population standard deviation: the square root of the mean squared deviation from
  the arithmetic mean, with the number of values as denominator. The sample standard
  deviation divides by one less.
\<close>

definition arithmetic_mean :: "real list \<Rightarrow> real" where
  "arithmetic_mean xs = (\<Sum>x\<leftarrow>xs. x) / real (length xs)"


definition sample_std :: "real list \<Rightarrow> real" where
  "sample_std xs =
     sqrt ((\<Sum>x\<leftarrow>xs. (x - arithmetic_mean xs)\<^sup>2) / (real (length xs) - 1))"

section \<open>Properties\<close>

subsection \<open>Mean, standard deviation and running average\<close>






text \<open>
  On the series \<open>0, 2\<close> the two denominators give different results, and \<^verbatim>\<open>np.std\<close>
  gives the one of the population.
\<close>

lemma std_not_sample_std:
  "np_std [0, 2] = Num 1 \<and> sample_std [0, 2] = sqrt 2"
proof -
  have "np_mean [0, 2] = Num 1" by (simp add: np_mean_def)
  then have "np_var 0 [0, 2] = Num 1" by (simp add: np_var_def)
  then have a: "np_std [0, 2] = Num 1" by (simp add: np_std_def np_std_ddof_def)
  have "arithmetic_mean [0, 2] = 1" by (simp add: arithmetic_mean_def)
  then have b: "sample_std [0, 2] = sqrt 2" by (simp add: sample_std_def)
  from a b show ?thesis by simp
qed





subsection \<open>The g-factor formula\<close>



text \<open>
  A mean of exactly zero gives \<^verbatim>\<open>0/0\<close>: the g-factor is \<^verbatim>\<open>nan\<close>, both comparisons are
  false and the last branch is taken.
\<close>

lemma zero_mean_needs_review:
  "actual_g (Num 0) expected_g = NaN
   \<and> classification (difference (actual_g (Num 0) expected_g) expected_g) = NeedsReview"
proof -
  have "actual_g (Num 0) expected_g = NaN"
    by (simp add: actual_g_def rg_linear_theoretical_def expected_g_def)
  then show ?thesis by (simp add: classification_def difference_def)
qed

subsection \<open>Loading, and runs that end in a handler\<close>

lemma loadtxt_missing:
  "files env filename = None \<Longrightarrow> loadtxt (files env) filename = Inl (FileNotFoundError filename)"
  by (simp add: loadtxt_def)

lemma try_block_missing:
  "files env filename = None \<Longrightarrow>
     try_block t_ppf env filename = (Inl (FileNotFoundError filename), [], [])"
  by (simp add: try_block_def loadtxt_def)

lemma try_block_1_missing:
  "files env filename = None \<Longrightarrow>
     try_block_1 env filename = (Inl (FileNotFoundError filename), [], [])"
  by (simp add: try_block_1_def loadtxt_def)









subsection \<open>Runs of the g-factor script that return a result\<close>







subsection \<open>The claims\<close>






text \<open>
  C3. For every non-empty series of length \<open>N\<close>, the half-tail window is the index range
  \<open>[N div 2, N)\<close>: it holds the values at exactly these indices, in order, its length is
  \<open>N - N div 2\<close>, and it is never longer than the series.
\<close>

theorem half_tail_window:
  assumes "rg_values \<noteq> []"
  shows "equilibrated_rg rg_values =
           map (\<lambda>i. rg_values ! i) [length rg_values div 2 ..< length rg_values]
         \<and> length (equilibrated_rg rg_values) = length rg_values - length rg_values div 2
         \<and> length (equilibrated_rg rg_values) \<le> length rg_values"
proof -
  have "drop k xs = map (\<lambda>i. xs ! i) [k ..< length xs]" for k and xs :: "real list"
    by (rule nth_equalityI) simp_all
  then show ?thesis by (simp add: equilibrated_rg_def equilibrated_start_def)
qed

theorem half_tail_window_witness:
  "[1, 2, 3 :: real] \<noteq> [] \<and> equilibrated_rg [1, 2, 3] = [2, 3]
   \<and> length (equilibrated_rg [1, 2, 3 :: real]) = 2"
  using half_tail_window [of "[1, 2, 3]"]
  by (simp add: equilibrated_rg_def equilibrated_start_def)

text \<open>
  C4. The classification of the absolute difference uses half-open bands: below 0.05 it
  is "excellent", from 0.05 up to but excluding 0.10 it is "good", and from 0.10 on it is
  "needs review". A difference of exactly 0.05 is "good" and one of exactly 0.10 is
  "needs review".
\<close>

theorem classification_bands:
  "(d < 0.05 \<longrightarrow> classification (Num d) = Excellent)
   \<and> (0.05 \<le> d \<and> d < 0.1 \<longrightarrow> classification (Num d) = Good)
   \<and> (0.1 \<le> d \<longrightarrow> classification (Num d) = NeedsReview)
   \<and> classification (Num 0.05) = Good
   \<and> classification (Num 0.1) = NeedsReview"
  by (simp add: classification_def)

theorem classification_bands_witness:
  "classification (Num 0.01) = Excellent \<and> classification (Num 0.07) = Good
   \<and> classification (Num 0.2) = NeedsReview"
  using classification_bands [of "0.01"] classification_bands [of "0.07"]
    classification_bands [of "0.2"] by simp








text \<open>
  C8. For every input path that does not exist, loading raises \<^verbatim>\<open>FileNotFoundError\<close> for
  that name, each of the two functions reports the name as not found and returns its
  failure value, and no file is created.
\<close>

theorem missing_file:
  assumes "files env filename = None"
  shows "loadtxt (files env) filename = Inl (FileNotFoundError filename)
         \<and> analyze_gyration_data t_ppf env filename =
             Inr \<lparr>ret = None, stdout = [Banner, NotFound filename, Hint], created = []\<rparr>
         \<and> analyze_gyration_data_1 env filename =
             Inr \<lparr>ret = None, stdout = [Banner, NotFound filename, Hint], created = []\<rparr>"
  using assms
  by (simp add: loadtxt_missing analyze_gyration_data_def analyze_gyration_data_1_def
        try_block_missing try_block_1_missing)

theorem missing_file_witness:
  "files \<lparr>files = Map.empty, pyplot_error = None, open_error = None\<rparr> ''gyration.txt'' = None
   \<and> analyze_gyration_data_1 \<lparr>files = Map.empty, pyplot_error = None, open_error = None\<rparr>
        ''gyration.txt'' =
       Inr \<lparr>ret = None, stdout = [Banner, NotFound ''gyration.txt'', Hint], created = []\<rparr>"
  using missing_file [of "\<lparr>files = Map.empty, pyplot_error = None, open_error = None\<rparr>"
      "''gyration.txt''"]
  by simp





end
